theory Spec2Isabelle
  imports Complex_Main "HOL-Library.Word"
begin

section \<open>Basic types of the chain\<close>

text \<open>
  The Go code works on fixed-size byte arrays and unsigned 64-bit counters:
  \<^item> \<open>crypto.Hash\<close>, and with it \<open>BlockID\<close>, \<open>CoinOutputID\<close>, \<open>BlockStakeOutputID\<close> and
    \<open>Target\<close>, is \<open>[32]byte\<close>, read big-endian as a 256-bit word;
  \<^item> \<open>BlockHeight\<close> and \<open>Timestamp\<close> are \<open>uint64\<close>;
  \<^item> \<open>Currency\<close> is an unbounded unsigned integer;
  \<^item> \<open>*big.Rat\<close> is an exact rational.
\<close>

type_synonym byte = "8 word"
type_synonym Hash = "256 word"
type_synonym BlockID = Hash
type_synonym CoinOutputID = Hash
type_synonym BlockStakeOutputID = Hash
type_synonym Target = "256 word"
type_synonym BlockHeight = "64 word"
type_synonym Timestamp = "64 word"
type_synonym Currency = nat
type_synonym Specifier = "byte list"

section \<open>types/signatures.go\<close>

text \<open>
  The error values declared in \<open>signatures.go\<close>, together with \<open>ErrDoubleSpend\<close>, which
  \<open>validSignatures\<close> returns and which is declared elsewhere in package \<open>types\<close>.
  \<open>ErrOther\<close> stands for any further error value an unlocker may hand back.
\<close>

datatype error =
    ErrDoubleSpend
  | ErrEntropyKey
  | ErrFrivolousSignature
  | ErrInvalidPubKeyIndex
  | ErrInvalidUnlockHashChecksum
  | ErrMissingSignatures
  | ErrPrematureSignature
  | ErrPublicKeyOveruse
  | ErrSortedUniqueViolation
  | ErrUnlockHashWrongLen
  | ErrOther string

record SiaPublicKey =
  Algorithm :: Specifier
  Key :: "byte list"

definition SignatureEntropy :: Specifier where
  "SignatureEntropy = map (of_nat \<circ> of_char) ''entropy''"

definition SignatureEd25519 :: Specifier where
  "SignatureEd25519 = map (of_nat \<circ> of_char) ''ed25519''"

text \<open>
  The transaction types are declared outside \<open>signatures.go\<close>; the fields below are the ones
  \<open>signatures.go\<close> and \<open>constants.go\<close> read and build.  The unlocker of an input is an
  interface value (methods \<open>Unlock\<close> and \<open>UnlockHash\<close>), kept abstract as the type
  parameter \<open>'u\<close>; its two methods are parameters of the functions that call them.
\<close>

record UnlockHash =
  Type :: byte
  Hash :: Hash

record CoinOutput =
  Value :: Currency
  UnlockHash :: UnlockHash

record BlockStakeOutput =
  Value :: Currency
  UnlockHash :: UnlockHash

record 'u CoinInput =
  ParentID :: CoinOutputID
  Unlocker :: 'u

record 'u BlockStakeInput =
  ParentID :: BlockStakeOutputID
  Unlocker :: 'u

text \<open>
  Modelled from the spec: the \<open>Transaction\<close> struct is not among the sources.  Section 3 of
  the specification lists its fields as CoinInputs, CoinOutputs, BlockStakeInputs,
  BlockStakeOutputs, MinerFees, ArbitraryData and Signatures; the element type of the
  signature list is the type parameter \<open>'s\<close>.
\<close>

record ('u, 's) Transaction =
  CoinInputs :: "'u CoinInput list"
  CoinOutputs :: "CoinOutput list"
  BlockStakeInputs :: "'u BlockStakeInput list"
  BlockStakeOutputs :: "BlockStakeOutput list"
  MinerFees :: "Currency list"
  ArbitraryData :: "byte list"
  Signatures :: "'s list"

subsection \<open>sortedUnique\<close>

text \<open>
  \<open>func sortedUnique(elems []uint64, max int) bool\<close>.  The loop over \<open>elems[1:]\<close> carries
  \<open>biggest\<close>; \<open>None\<close> is the \<open>return false\<close> inside the loop.  \<open>max\<close> is a Go \<open>int\<close>,
  a 64-bit two's complement value on the supported platforms: it is kept as the word
  holding its bits (\<open>sint\<close> reads its value), and the conversion \<open>uint64(max)\<close> keeps
  the bits, so the last comparison is the unsigned one on words.
\<close>

fun sortedUnique_loop :: "64 word \<Rightarrow> 64 word list \<Rightarrow> 64 word option" where
  "sortedUnique_loop biggest [] = Some biggest"
| "sortedUnique_loop biggest (elem # elems) =
     (if elem \<le> biggest then None else sortedUnique_loop elem elems)"

definition sortedUnique :: "64 word list \<Rightarrow> 64 word \<Rightarrow> bool" where
  "sortedUnique elems max' =
     (case elems of
        [] \<Rightarrow> True
      | e # es \<Rightarrow>
          (case sortedUnique_loop e es of
             None \<Rightarrow> False
           | Some biggest \<Rightarrow> if biggest \<ge> max' then False else True))"

text \<open>
  The property the specification words for \<open>sortedUnique\<close>: the indices are strictly
  increasing and every one of them is strictly below \<open>max\<close>, read as the signed integer
  the caller passed.
\<close>

definition strictlyIncreasingBelow :: "64 word list \<Rightarrow> 64 word \<Rightarrow> bool" where
  "strictlyIncreasingBelow elems max' =
     (sorted_wrt (<) elems \<and> list_all (\<lambda>e. uint e < sint max') elems)"

subsection \<open>validSignatures\<close>

text \<open>
  \<open>func (t *Transaction) validSignatures(currentHeight BlockHeight) (err error)\<close>.
  Each of the two loops keeps its own map of spent parent IDs (a set here) and the index
  of the input; \<open>None\<close> is the \<open>nil\<close> error.  \<open>unlock u i t\<close> is the interface call
  \<open>u.Unlock(uint64(index), *t)\<close>.
\<close>

fun spendCoins_loop ::
  "('u \<Rightarrow> 64 word \<Rightarrow> ('u, 's) Transaction \<Rightarrow> error option) \<Rightarrow> ('u, 's) Transaction \<Rightarrow>
   CoinOutputID set \<Rightarrow> nat \<Rightarrow> 'u CoinInput list \<Rightarrow> error option" where
  "spendCoins_loop unlock t spendCoins index [] = None"
| "spendCoins_loop unlock t spendCoins index (ci # rest) =
     (if CoinInput.ParentID ci \<in> spendCoins then Some ErrDoubleSpend
      else (case unlock (CoinInput.Unlocker ci) (of_nat index) t of
              Some err \<Rightarrow> Some err
            | None \<Rightarrow>
                spendCoins_loop unlock t (insert (CoinInput.ParentID ci) spendCoins)
                  (index + 1) rest))"

fun spendBlockStakes_loop ::
  "('u \<Rightarrow> 64 word \<Rightarrow> ('u, 's) Transaction \<Rightarrow> error option) \<Rightarrow> ('u, 's) Transaction \<Rightarrow>
   BlockStakeOutputID set \<Rightarrow> nat \<Rightarrow> 'u BlockStakeInput list \<Rightarrow> error option" where
  "spendBlockStakes_loop unlock t spendBlockStakes index [] = None"
| "spendBlockStakes_loop unlock t spendBlockStakes index (bsi # rest) =
     (if BlockStakeInput.ParentID bsi \<in> spendBlockStakes then Some ErrDoubleSpend
      else (case unlock (BlockStakeInput.Unlocker bsi) (of_nat index) t of
              Some err \<Rightarrow> Some err
            | None \<Rightarrow>
                spendBlockStakes_loop unlock t
                  (insert (BlockStakeInput.ParentID bsi) spendBlockStakes) (index + 1) rest))"

definition validSignatures ::
  "('u \<Rightarrow> 64 word \<Rightarrow> ('u, 's) Transaction \<Rightarrow> error option) \<Rightarrow> ('u, 's) Transaction \<Rightarrow>
   BlockHeight \<Rightarrow> error option" where
  "validSignatures unlock t currentHeight =
     (case spendCoins_loop unlock t {} 0 (CoinInputs t) of
        Some err \<Rightarrow> Some err
      | None \<Rightarrow> spendBlockStakes_loop unlock t {} 0 (BlockStakeInputs t))"

section \<open>types/constants.go\<close>

text \<open>
  \<open>ChainConstants\<close> groups the chain configuration.  The fields kept here are the numeric
  ones; the fees, the currency units and the genesis allocations of the Go struct play no
  part in the functions below.  \<open>RootDepth\<close> is the target of 32 bytes \<open>255\<close>.
\<close>

record ChainConstants =
  BlockSizeLimit :: "64 word"
  RootDepth :: Target
  BlockFrequency :: BlockHeight
  MaturityDelay :: BlockHeight
  MedianTimestampWindow :: "64 word"
  TargetWindow :: BlockHeight
  MaxAdjustmentUp :: rat
  MaxAdjustmentDown :: rat
  FutureThreshold :: Timestamp
  ExtremeFutureThreshold :: Timestamp
  StakeModifierDelay :: BlockHeight
  BlockStakeAging :: "64 word"

text \<open>
  \<open>func DefaultChainConstants() ChainConstants\<close>, with the build tag \<open>build.Release\<close> as
  its argument: \<open>dev\<close>, \<open>testing\<close>, and the standard net for every other value.
\<close>

definition DefaultChainConstants :: "string \<Rightarrow> ChainConstants" where
  "DefaultChainConstants release =
     (if release = ''dev'' then
        \<lparr> BlockSizeLimit = 2000000,
          RootDepth = 115792089237316195423570985008687907853269984665640564039457584007913129639935,
          BlockFrequency = 12, MaturityDelay = 10, MedianTimestampWindow = 11,
          TargetWindow = 20,
          MaxAdjustmentUp = Fract 120 100, MaxAdjustmentDown = Fract 100 120,
          FutureThreshold = 2 * 60, ExtremeFutureThreshold = 4 * 60,
          StakeModifierDelay = 2000, BlockStakeAging = 2 ^ 10 \<rparr>
      else if release = ''testing'' then
        \<lparr> BlockSizeLimit = 2000000,
          RootDepth = 115792089237316195423570985008687907853269984665640564039457584007913129639935,
          BlockFrequency = 1, MaturityDelay = 3, MedianTimestampWindow = 11,
          TargetWindow = 200,
          MaxAdjustmentUp = Fract 10001 10000, MaxAdjustmentDown = Fract 9999 10000,
          FutureThreshold = 3, ExtremeFutureThreshold = 6,
          StakeModifierDelay = 20, BlockStakeAging = 2 ^ 10 \<rparr>
      else
        \<lparr> BlockSizeLimit = 2000000,
          RootDepth = 115792089237316195423570985008687907853269984665640564039457584007913129639935,
          BlockFrequency = 600, MaturityDelay = 144, MedianTimestampWindow = 11,
          TargetWindow = 1000,
          MaxAdjustmentUp = Fract 25 10, MaxAdjustmentDown = Fract 10 25,
          FutureThreshold = 3 * 60 * 60, ExtremeFutureThreshold = 5 * 60 * 60,
          StakeModifierDelay = 2000, BlockStakeAging = 2 ^ 17 \<rparr>)"

section \<open>Targets\<close>

text \<open>
  A Go panic (a run-time error, or an explicit \<open>panic\<close>) ends the call without a result;
  the functions that can panic return \<open>panic + 'a\<close>, with \<open>Inl\<close> for the panic.
\<close>

datatype panic = DivisionByZero | NegativeTarget | MissingBlock | UnmarshalError

text \<open>
  Modelled from the spec: the methods of \<open>types.Target\<close> (\<open>Cmp\<close>, \<open>Int\<close>, \<open>Rat\<close>,
  \<open>Inverse\<close>, \<open>AddDifficulties\<close>, \<open>MulDifficulty\<close>) and the conversions \<open>IntToTarget\<close> and
  \<open>RatToTarget\<close> are called by \<open>processedblock.go\<close> but are not among the sources.
  The specification has targets as 256-bit unsigned integers compared by value, a smaller
  value being the heavier one; difficulty as the inverse of a target; the depth as the
  inverse-scaled sum of targets, saturating instead of overflowing; and a rational turned
  back into an integer target.  So: \<open>Cmp\<close> compares the integer values; adding
  difficulties adds the inverses and inverts the sum; multiplying a difficulty by \<open>y\<close>
  multiplies the inverse by \<open>y\<close> and inverts the product; a rational is cut down to its
  integer part, a value of more than 256 bits becomes the largest target, and a negative
  one is no target.  Inverting zero is \<open>big.Rat\<close>'s division by zero.
\<close>

definition Target_Int :: "Target \<Rightarrow> int" where
  "Target_Int x = uint x"

definition Target_Rat :: "Target \<Rightarrow> rat" where
  "Target_Rat x = of_int (Target_Int x)"

definition Cmp :: "Target \<Rightarrow> Target \<Rightarrow> int" where
  "Cmp x y = (if Target_Int x < Target_Int y then - 1 else if Target_Int x = Target_Int y then 0 else 1)"

definition IntToTarget :: "int \<Rightarrow> panic + Target" where
  "IntToTarget i =
     (if i < 0 then Inl NegativeTarget
      else if 2 ^ 256 \<le> i then Inr (word_of_int (2 ^ 256 - 1))
      else Inr (word_of_int i))"

definition RatToTarget :: "rat \<Rightarrow> panic + Target" where
  "RatToTarget r = IntToTarget \<lfloor>r\<rfloor>"

definition big_Rat_Inv :: "rat \<Rightarrow> panic + rat" where
  "big_Rat_Inv r = (if r = 0 then Inl DivisionByZero else Inr (inverse r))"

definition Inverse :: "Target \<Rightarrow> panic + rat" where
  "Inverse x = big_Rat_Inv (Target_Rat x)"

definition AddDifficulties :: "Target \<Rightarrow> Target \<Rightarrow> panic + Target" where
  "AddDifficulties x y =
     (case Inverse x of
        Inl p \<Rightarrow> Inl p
      | Inr ix \<Rightarrow>
          (case Inverse y of
             Inl p \<Rightarrow> Inl p
           | Inr iy \<Rightarrow>
               (case big_Rat_Inv (ix + iy) of
                  Inl p \<Rightarrow> Inl p
                | Inr sumDifficulty \<Rightarrow> RatToTarget sumDifficulty)))"

definition MulDifficulty :: "Target \<Rightarrow> rat \<Rightarrow> panic + Target" where
  "MulDifficulty x y =
     (case Inverse x of
        Inl p \<Rightarrow> Inl p
      | Inr ix \<Rightarrow>
          (case big_Rat_Inv (y * ix) of
             Inl p \<Rightarrow> Inl p
           | Inr product \<Rightarrow> RatToTarget product))"

section \<open>modules/consensus/processedblock.go\<close>

text \<open>
  Of a block the functions below read the parent ID and the timestamp; its ID is the hash
  \<open>b.ID()\<close>, a parameter \<open>ID\<close> of the functions that call it.
\<close>

record Block =
  ParentID :: BlockID
  Timestamp :: Timestamp

text \<open>
  Modelled from the spec: the diff types of package \<open>modules\<close> are not among the sources.
  Section 3 of the specification gives a diff a direction, the ID of the output, the output
  and, for a delayed output, its maturity height.
\<close>

datatype DiffDirection = DiffApply | DiffRevert

record 'o OutputDiff =
  Direction :: DiffDirection
  OutputID :: Hash
  Output :: 'o
  MaturityHeight :: "BlockHeight option"

record processedBlock =
  Block :: Block
  Height :: BlockHeight
  Depth :: Target
  ChildTarget :: Target
  DiffsGenerated :: bool
  CoinOutputDiffs :: "CoinOutput OutputDiff list"
  BlockStakeOutputDiffs :: "BlockStakeOutput OutputDiff list"
  DelayedCoinOutputDiffs :: "CoinOutput OutputDiff list"
  ConsensusChecksum :: Hash

text \<open>The zero value of the struct, as \<open>var parent processedBlock\<close> declares it.\<close>

definition zero_processedBlock :: processedBlock where
  "zero_processedBlock =
     \<lparr> Block = \<lparr> ParentID = 0, Timestamp = 0 \<rparr>, Height = 0, Depth = 0, ChildTarget = 0,
       DiffsGenerated = False, CoinOutputDiffs = [], BlockStakeOutputDiffs = [],
       DelayedCoinOutputDiffs = [], ConsensusChecksum = 0 \<rparr>"

text \<open>
  The bucket \<open>blockMap\<close> holds the marshalled \<open>processedBlock\<close> of every known block under
  its ID: a partial map from IDs to nodes.
\<close>

type_synonym blockMap = "BlockID \<rightharpoonup> processedBlock"

definition SurpassThreshold :: rat where
  "SurpassThreshold = Fract 20 100"

subsection \<open>heavierThan and childDepth\<close>

definition heavierThan :: "processedBlock \<Rightarrow> processedBlock \<Rightarrow> panic + bool" where
  "heavierThan pb cmp =
     (case MulDifficulty (ChildTarget cmp) SurpassThreshold of
        Inl p \<Rightarrow> Inl p
      | Inr threshold \<Rightarrow>
          (case AddDifficulties (Depth cmp) threshold of
             Inl p \<Rightarrow> Inl p
           | Inr requirement \<Rightarrow> Inr (Cmp requirement (Depth pb) > 0)))"


subsection \<open>targetAdjustmentBase\<close>

text \<open>
  Modelled from the spec: \<open>Block.UnmarshalBlockHeadersParentIDAndTS\<close> is not among the
  sources.  It reads the parent ID and the timestamp of the block stored under a key; the
  store's \<open>get\<close> of the specification has no value for an unknown key, and decoding the
  header of no value ends the call.
\<close>

definition UnmarshalBlockHeadersParentIDAndTS ::
  "blockMap \<Rightarrow> BlockID \<Rightarrow> panic + (BlockID \<times> Timestamp)" where
  "UnmarshalBlockHeadersParentIDAndTS bm key =
     (case bm key of
        None \<Rightarrow> Inl MissingBlock
      | Some node \<Rightarrow> Inr (Block.ParentID (Block node), Block.Timestamp (Block node)))"

text \<open>
  The loop \<open>for windowSize = 0; windowSize < types.TargetWindow && parent != (types.BlockID{});
  windowSize++\<close> with its variables \<open>windowSize\<close>, \<open>parent\<close> and \<open>current\<close>; \<open>tw\<close> is
  \<open>types.TargetWindow\<close>.  The counter is a \<open>uint64\<close> that stays below \<open>tw\<close>, so the
  loop ends after at most \<open>tw\<close> rounds.
\<close>

function walkWindow ::
  "blockMap \<Rightarrow> BlockHeight \<Rightarrow> BlockHeight \<Rightarrow> BlockID \<Rightarrow> BlockID \<Rightarrow>
   panic + (BlockHeight \<times> BlockID)" where
  "walkWindow bm tw windowSize parent current =
     (if windowSize < tw \<and> parent \<noteq> 0 then
        (case UnmarshalBlockHeadersParentIDAndTS bm parent of
           Inl p \<Rightarrow> Inl p
         | Inr (parentID, ts) \<Rightarrow> walkWindow bm tw (windowSize + 1) parentID parent)
      else Inr (windowSize, current))"
  by pat_completeness auto
termination
proof (relation "measure (\<lambda>(bm, tw, windowSize, parent, current). unat tw - unat windowSize)")
  show "wf (measure (\<lambda>(bm, tw, windowSize, parent, current). unat tw - unat windowSize))"
    by simp
next
  fix bm :: blockMap and tw windowSize :: BlockHeight and parent current :: BlockID
    and x :: "BlockID \<times> Timestamp" and parentID :: BlockID and ts :: Timestamp
  assume "windowSize < tw \<and> parent \<noteq> 0"
  then have "unat tw - unat (windowSize + 1) < unat tw - unat windowSize"
    by unat_arith
  then show "((bm, tw, windowSize + 1, parentID, parent), bm, tw, windowSize, parent, current)
      \<in> measure (\<lambda>(bm, tw, windowSize, parent, current). unat tw - unat windowSize)"
    by simp
qed

declare walkWindow.simps [simp del]

text \<open>\<open>big.NewRat(a, b)\<close> of the Go library: the fraction \<open>a/b\<close>, a panic when \<open>b\<close> is zero.\<close>

definition big_NewRat :: "int \<Rightarrow> int \<Rightarrow> panic + rat" where
  "big_NewRat a b = (if b = 0 then Inl DivisionByZero else Inr (Fract a b))"

text \<open>
  \<open>func (cs *ConsensusSet) targetAdjustmentBase(blockMap *bolt.Bucket, pb *processedBlock)
  *big.Rat\<close>.  Both \<open>timePassed\<close> and \<open>expectedTimePassed\<close> are \<open>uint64\<close> values, computed
  with wrap-around, and \<open>int64(...)\<close> reads their bits as two's complement (\<open>sint\<close>).
\<close>

definition targetAdjustmentBase ::
  "ChainConstants \<Rightarrow> (Block \<Rightarrow> BlockID) \<Rightarrow> blockMap \<Rightarrow> processedBlock \<Rightarrow> panic + rat" where
  "targetAdjustmentBase cc ID bm pb =
     (case walkWindow bm (TargetWindow cc) 0 (Block.ParentID (Block pb)) (ID (Block pb)) of
        Inl p \<Rightarrow> Inl p
      | Inr (windowSize, current) \<Rightarrow>
          (case UnmarshalBlockHeadersParentIDAndTS bm current of
             Inl p \<Rightarrow> Inl p
           | Inr (parentID, timestamp) \<Rightarrow>
               (let timePassed = Block.Timestamp (Block pb) - timestamp;
                    expectedTimePassed = BlockFrequency cc * windowSize
                in big_NewRat (sint timePassed) (sint expectedTimePassed))))"



subsection \<open>clampTargetAdjustment, setChildTarget and newChild\<close>

definition clampTargetAdjustment :: "ChainConstants \<Rightarrow> rat \<Rightarrow> rat" where
  "clampTargetAdjustment cc base =
     (if base > MaxAdjustmentUp cc then MaxAdjustmentUp cc
      else if base < MaxAdjustmentDown cc then MaxAdjustmentDown cc
      else base)"

text \<open>
  \<open>func (cs *ConsensusSet) setChildTarget(blockMap *bolt.Bucket, pb *processedBlock)\<close>
  returns the node with its \<open>ChildTarget\<close> set.  Unmarshalling the bytes of an unknown
  parent fails: a panic when \<open>build.DEBUG\<close> holds (the argument \<open>debug\<close>), and otherwise
  \<open>parent\<close> stays the zero value.  The remainder \<open>pb.Height % (types.TargetWindow / 2)\<close>
  is Go's integer division, a run-time panic when the divisor is zero.
\<close>

definition setChildTarget ::
  "ChainConstants \<Rightarrow> bool \<Rightarrow> (Block \<Rightarrow> BlockID) \<Rightarrow> blockMap \<Rightarrow> processedBlock \<Rightarrow>
   panic + processedBlock" where
  "setChildTarget cc debug ID bm pb =
     (case (case bm (Block.ParentID (Block pb)) of
              None \<Rightarrow> if debug then Inl UnmarshalError else Inr zero_processedBlock
            | Some node \<Rightarrow> Inr node) of
        Inl p \<Rightarrow> Inl p
      | Inr parent \<Rightarrow>
          if TargetWindow cc div 2 = 0 then Inl DivisionByZero
          else if Height pb mod (TargetWindow cc div 2) \<noteq> 0
          then Inr (pb \<lparr> ChildTarget := ChildTarget parent \<rparr>)
          else
            (case targetAdjustmentBase cc ID bm pb of
               Inl p \<Rightarrow> Inl p
             | Inr base \<Rightarrow>
                 (let adjustment = clampTargetAdjustment cc base;
                      adjustedRatTarget = Target_Rat (ChildTarget parent) * adjustment
                  in case RatToTarget adjustedRatTarget of
                       Inl p \<Rightarrow> Inl p
                     | Inr target \<Rightarrow> Inr (pb \<lparr> ChildTarget := target \<rparr>))))"


section \<open>types/signatures.go: InputSigHash\<close>

text \<open>
  \<open>func (t Transaction) InputSigHash(inputIndex uint64) (hash crypto.Hash)\<close> writes the
  encodings of a sequence of values into a hasher and returns its sum.  The encoder of
  package \<open>encoding\<close> takes a value of any type: \<open>EncValue\<close> lists the types of the values
  this function hands to it, and \<open>marshal\<close> is the encoding.  The state of the hasher is the
  bytes written so far, and \<open>hashSum\<close> is the hash of them.  \<open>unlockHash\<close> is the
  interface method \<open>Unlocker.UnlockHash()\<close>.
\<close>

datatype EncValue =
    EncUint64 "64 word"
  | EncID Hash
  | EncUnlockHash UnlockHash
  | EncCoinOutputs "CoinOutput list"
  | EncBlockStakeOutputs "BlockStakeOutput list"
  | EncCurrencies "Currency list"
  | EncBytes "byte list"

definition Encode :: "(EncValue \<Rightarrow> byte list) \<Rightarrow> byte list \<Rightarrow> EncValue \<Rightarrow> byte list" where
  "Encode marshal h v = h @ marshal v"

definition EncodeAll :: "(EncValue \<Rightarrow> byte list) \<Rightarrow> byte list \<Rightarrow> EncValue list \<Rightarrow> byte list" where
  "EncodeAll marshal h vs = foldl (Encode marshal) h vs"

definition InputSigHash ::
  "(EncValue \<Rightarrow> byte list) \<Rightarrow> (byte list \<Rightarrow> Hash) \<Rightarrow> ('u \<Rightarrow> UnlockHash) \<Rightarrow>
   ('u, 's) Transaction \<Rightarrow> 64 word \<Rightarrow> Hash" where
  "InputSigHash marshal hashSum unlockHash t inputIndex =
     (let h0 = [];
          h1 = Encode marshal h0 (EncUint64 inputIndex);
          h2 = foldl (\<lambda>h ci. EncodeAll marshal h
                  [EncID (CoinInput.ParentID ci), EncUnlockHash (unlockHash (CoinInput.Unlocker ci))])
                h1 (CoinInputs t);
          h3 = Encode marshal h2 (EncCoinOutputs (CoinOutputs t));
          h4 = foldl (\<lambda>h bsi. EncodeAll marshal h
                  [EncID (BlockStakeInput.ParentID bsi),
                   EncUnlockHash (unlockHash (BlockStakeInput.Unlocker bsi))])
                h3 (BlockStakeInputs t);
          h5 = EncodeAll marshal h4
                 [EncBlockStakeOutputs (BlockStakeOutputs t), EncCurrencies (MinerFees t),
                  EncBytes (ArbitraryData t)]
      in hashSum h5)"

section \<open>Example inputs\<close>

text \<open>A transaction that spends nothing: outputs, a fee and data, but no input.\<close>

definition tx_outputs_only :: "(unit, unit) Transaction" where
  "tx_outputs_only =
     \<lparr> CoinInputs = [],
       CoinOutputs = [\<lparr> CoinOutput.Value = 5, CoinOutput.UnlockHash = \<lparr> Type = 1, Hash = 7 \<rparr> \<rparr>],
       BlockStakeInputs = [],
       BlockStakeOutputs =
         [\<lparr> BlockStakeOutput.Value = 1, BlockStakeOutput.UnlockHash = \<lparr> Type = 1, Hash = 9 \<rparr> \<rparr>],
       MinerFees = [3], ArbitraryData = [1, 2], Signatures = [()] \<rparr>"





text \<open>
  A transaction whose unlockers are pairs of a key and a signature; the unlock hash of an
  unlocker is taken from its key alone.  \<open>tx_signed sig sigs\<close> carries the signature
  \<open>sig\<close> in its unlockers and the signature list \<open>sigs\<close>.
\<close>

definition unlockHash_of_key :: "nat \<times> nat \<Rightarrow> UnlockHash" where
  "unlockHash_of_key u = \<lparr> Type = 1, Hash = of_nat (fst u) \<rparr>"

definition tx_signed :: "nat \<Rightarrow> nat list \<Rightarrow> (nat \<times> nat, nat) Transaction" where
  "tx_signed sig sigs =
     \<lparr> CoinInputs = [\<lparr> CoinInput.ParentID = 1, CoinInput.Unlocker = (11, sig) \<rparr>],
       CoinOutputs = [\<lparr> CoinOutput.Value = 5, CoinOutput.UnlockHash = \<lparr> Type = 1, Hash = 7 \<rparr> \<rparr>],
       BlockStakeInputs = [\<lparr> BlockStakeInput.ParentID = 2, BlockStakeInput.Unlocker = (12, sig + 1) \<rparr>],
       BlockStakeOutputs = [],
       MinerFees = [3], ArbitraryData = [1, 2], Signatures = sigs \<rparr>"


text \<open>
  A small chain.  The ID of a block is its parent's ID plus one, so the genesis block
  (parent ID zero) has ID 1.  \<open>node parent ts height depth target\<close> is a node with these
  fields and no diffs.  \<open>chain_genesis\<close> holds a genesis block stamped 100, \<open>chain_two\<close>
  the same block and a child stamped 110, and \<open>chain_late_genesis\<close> a genesis block
  stamped \<open>2^63 + 10\<close>.
\<close>

definition chain_ID :: "Block \<Rightarrow> BlockID" where
  "chain_ID b = Block.ParentID b + 1"

definition node :: "BlockID \<Rightarrow> Timestamp \<Rightarrow> BlockHeight \<Rightarrow> Target \<Rightarrow> Target \<Rightarrow> processedBlock" where
  "node parent ts height depth target =
     zero_processedBlock \<lparr> Block := \<lparr> ParentID = parent, Timestamp = ts \<rparr>,
       Height := height, Depth := depth, ChildTarget := target \<rparr>"

definition chain_two :: blockMap where
  "chain_two = [1 \<mapsto> node 0 100 0 1000000 3000, 2 \<mapsto> node 1 110 1 2991 3000]"

definition chain_genesis :: blockMap where
  "chain_genesis = [1 \<mapsto> node 0 100 0 1000000 3000]"

definition chain_late_genesis :: blockMap where
  "chain_late_genesis = [1 \<mapsto> node 0 9223372036854775818 0 1000000 3000]"


text \<open>A chain tip of a given depth and child target.\<close>

definition tip :: "Target \<Rightarrow> Target \<Rightarrow> processedBlock" where
  "tip depth target = zero_processedBlock \<lparr> Depth := depth, ChildTarget := target \<rparr>"


text \<open>The constants of the developer network with a target window of four blocks.\<close>

definition small_window :: ChainConstants where
  "small_window = (DefaultChainConstants ''dev'') \<lparr> TargetWindow := 4 \<rparr>"


section \<open>Properties of types/signatures.go\<close>


lemma sortedUnique_loop_Some:
  "sortedUnique_loop b es = Some m \<longleftrightarrow> sorted_wrt (<) (b # es) \<and> m = last (b # es)"
  by (induction es arbitrary: b) (auto simp: not_le)

lemma sortedUnique_loop_None:
  "sortedUnique_loop b es = None \<longleftrightarrow> \<not> sorted_wrt (<) (b # es)"
  using sortedUnique_loop_Some [of b es] by (cases "sortedUnique_loop b es") auto

subsection \<open>Reading a 64-bit word as a signed integer\<close>

lemma sint_cases: "sint w = (if uint w < 2 ^ 63 then uint w else uint w - 2 ^ 64)"
  for w :: "64 word"
proof -
  have b: "0 \<le> uint w" "uint w < 2 ^ 64"
    using uint_lt2p [of w] by simp_all
  have s: "sint w = (uint w + 2 ^ 63) mod 2 ^ 64 - 2 ^ 63"
    by (simp add: sint_uint signed_take_bit_eq_take_bit_shift take_bit_eq_mod)
  show ?thesis
  proof (cases "uint w < 2 ^ 63")
    case True
    then have "(uint w + 2 ^ 63) mod 2 ^ 64 = uint w + 2 ^ 63"
      using b by (intro mod_pos_pos_trivial) simp_all
    then show ?thesis using s True by simp
  next
    case False
    then have "(uint w + 2 ^ 63) mod 2 ^ 64 = uint w + 2 ^ 63 - 2 ^ 64"
      using b by (subst mod_pos_geq) (simp_all add: mod_pos_pos_trivial)
    then show ?thesis using s False by simp
  qed
qed

lemma sint_nonneg_uint: "0 \<le> sint w \<Longrightarrow> sint w = uint w"
  for w :: "64 word"
  using uint_lt2p [of w] by (simp add: sint_cases split: if_splits)

subsection \<open>sortedUnique\<close>

lemma sorted_le_last:
  "sorted_wrt (<) (b # es) \<Longrightarrow> e \<in> set (b # es) \<Longrightarrow> e \<le> last (b # es)"
  for b :: "64 word"
proof (induction es arbitrary: b)
  case Nil
  then show ?case by simp
next
  case (Cons a es)
  then show ?case
    by (cases "e = b") (auto simp: less_imp_le dest: order_trans)
qed

lemma below_last_iff:
  fixes e :: "64 word"
  assumes "sorted_wrt (<) (e # es)"
  shows "(\<not> m \<le> last (e # es)) \<longleftrightarrow> (\<forall>x\<in>set (e # es). uint x < uint m)"
proof
  assume a: "\<not> m \<le> last (e # es)"
  show "\<forall>x\<in>set (e # es). uint x < uint m"
  proof
    fix x
    assume "x \<in> set (e # es)"
    then have "x \<le> last (e # es)"
      using assms sorted_le_last by blast
    with a have "x < m" by simp
    then show "uint x < uint m" by (simp add: word_less_def)
  qed
next
  assume a: "\<forall>x\<in>set (e # es). uint x < uint m"
  have "last (e # es) \<in> set (e # es)"
    by (rule last_in_set) simp
  with a have "uint (last (e # es)) < uint m" by blast
  then show "\<not> m \<le> last (e # es)" by (simp add: word_le_def)
qed

text \<open>
  Claim C7, as amended.  For every list of \<open>uint64\<close> indices and every bound \<open>max\<close> that is
  not negative, \<open>sortedUnique\<close> returns true if and only if the list is strictly increasing
  and every element is strictly below \<open>max\<close>.
\<close>

theorem sortedUnique_nonneg_max:
  assumes "0 \<le> sint max'"
  shows "sortedUnique elems max' \<longleftrightarrow>
    (sorted_wrt (<) elems \<and> (\<forall>e \<in> set elems. uint e < sint max'))"
proof (cases elems)
  case Nil
  then show ?thesis by (simp add: sortedUnique_def)
next
  case (Cons e es)
  have su: "sint max' = uint max'"
    using assms by (rule sint_nonneg_uint)
  show ?thesis
  proof (cases "sorted_wrt (<) (e # es)")
    case False
    then have "sortedUnique_loop e es = None"
      using sortedUnique_loop_None [of e es] by blast
    then have "\<not> sortedUnique elems max'"
      using Cons by (simp add: sortedUnique_def)
    then show ?thesis using Cons False by blast
  next
    case True
    then have l: "sortedUnique_loop e es = Some (last (e # es))"
      using sortedUnique_loop_Some [of e es "last (e # es)"] by blast
    have "sortedUnique elems max' \<longleftrightarrow> \<not> max' \<le> last (e # es)"
      using Cons l by (simp add: sortedUnique_def)
    also have "\<dots> \<longleftrightarrow> (\<forall>x\<in>set (e # es). uint x < uint max')"
      using True by (rule below_last_iff)
    finally show ?thesis using True unfolding Cons su by blast
  qed
qed

theorem sortedUnique_nonneg_max_witness:
  "sortedUnique [1, 4, 7] 8 \<and> \<not> sortedUnique [1, 4, 4] 8 \<and> \<not> sortedUnique [1, 4, 8] 8
   \<and> \<not> sortedUnique [4, 1] 8 \<and> sortedUnique [] 0"
  using sortedUnique_nonneg_max [of 8 "[1, 4, 7]"] sortedUnique_nonneg_max [of 8 "[1, 4, 4]"]
    sortedUnique_nonneg_max [of 8 "[1, 4, 8]"] sortedUnique_nonneg_max [of 8 "[4, 1]"]
    sortedUnique_nonneg_max [of 0 "[]"]
  by (simp add: word_less_def)

text \<open>
  With the bound \<open>-1\<close> the conversion \<open>uint64(max)\<close> is \<open>2^64 - 1\<close>, and the list \<open>[5]\<close> is
  accepted although \<open>5\<close> is not below \<open>-1\<close>.
\<close>

theorem sortedUnique_negative_max_counterexample:
  "sortedUnique [5] (- 1) \<and> \<not> strictlyIncreasingBelow [5] (- 1)"
  by (simp add: sortedUnique_def strictlyIncreasingBelow_def word_le_def uint_word_ariths)

subsection \<open>validSignatures\<close>








text \<open>
  Claim C10.  A transaction with no coin input and no block-stake input passes
  \<open>validSignatures\<close> at every height, whatever its outputs, fees and data, and whatever the
  unlockers would answer.
\<close>

theorem validSignatures_no_inputs:
  "CoinInputs t = [] \<Longrightarrow> BlockStakeInputs t = [] \<Longrightarrow>
     validSignatures unlock t currentHeight = None"
  by (simp add: validSignatures_def)

theorem validSignatures_no_inputs_witness:
  "validSignatures (\<lambda>u i t. Some ErrMissingSignatures) tx_outputs_only 42 = None"
  using validSignatures_no_inputs [of tx_outputs_only "\<lambda>u i t. Some ErrMissingSignatures" 42]
  by (simp add: tx_outputs_only_def)


subsection \<open>InputSigHash\<close>

lemma foldl_append_concat:
  "foldl (\<lambda>h x. h @ g x) h xs = h @ concat (map g xs)"
  by (induction xs arbitrary: h) simp_all

lemma EncodeAll_concat: "EncodeAll marshal h vs = h @ concat (map marshal vs)"
  unfolding EncodeAll_def by (induction vs arbitrary: h) (simp_all add: Encode_def)


lemma InputSigHash_preimage:
  "InputSigHash marshal hashSum unlockHash t inputIndex =
     hashSum (marshal (EncUint64 inputIndex)
       @ concat (map (\<lambda>ci. marshal (EncID (CoinInput.ParentID ci))
                          @ marshal (EncUnlockHash (unlockHash (CoinInput.Unlocker ci)))) (CoinInputs t))
       @ marshal (EncCoinOutputs (CoinOutputs t))
       @ concat (map (\<lambda>bsi. marshal (EncID (BlockStakeInput.ParentID bsi))
                          @ marshal (EncUnlockHash (unlockHash (BlockStakeInput.Unlocker bsi))))
                   (BlockStakeInputs t))
       @ marshal (EncBlockStakeOutputs (BlockStakeOutputs t))
       @ marshal (EncCurrencies (MinerFees t))
       @ marshal (EncBytes (ArbitraryData t)))"
  by (simp add: InputSigHash_def Let_def EncodeAll_concat Encode_def foldl_append_concat)

text \<open>
  Claim C5.  At every input index \<open>InputSigHash\<close> is the hash of the encodings of, in
  this order, the input index, the parent ID and unlock hash of each coin input, the coin
  outputs, the parent ID and unlock hash of each block-stake input, the block-stake
  outputs, the miner fees and the arbitrary data.  Two transactions that agree on these
  have the same hash; in particular the signature list has no part in it.
\<close>

theorem InputSigHash_ignores_signatures:
  "InputSigHash marshal hashSum unlockHash t inputIndex =
     hashSum (marshal (EncUint64 inputIndex)
       @ concat (map (\<lambda>ci. marshal (EncID (CoinInput.ParentID ci))
                          @ marshal (EncUnlockHash (unlockHash (CoinInput.Unlocker ci)))) (CoinInputs t))
       @ marshal (EncCoinOutputs (CoinOutputs t))
       @ concat (map (\<lambda>bsi. marshal (EncID (BlockStakeInput.ParentID bsi))
                          @ marshal (EncUnlockHash (unlockHash (BlockStakeInput.Unlocker bsi))))
                   (BlockStakeInputs t))
       @ marshal (EncBlockStakeOutputs (BlockStakeOutputs t))
       @ marshal (EncCurrencies (MinerFees t))
       @ marshal (EncBytes (ArbitraryData t)))
   \<and> (map (\<lambda>ci. (CoinInput.ParentID ci, unlockHash (CoinInput.Unlocker ci))) (CoinInputs t)
          = map (\<lambda>ci. (CoinInput.ParentID ci, unlockHash (CoinInput.Unlocker ci))) (CoinInputs t')
        \<and> CoinOutputs t = CoinOutputs t'
        \<and> map (\<lambda>bsi. (BlockStakeInput.ParentID bsi, unlockHash (BlockStakeInput.Unlocker bsi)))
              (BlockStakeInputs t)
          = map (\<lambda>bsi. (BlockStakeInput.ParentID bsi, unlockHash (BlockStakeInput.Unlocker bsi)))
              (BlockStakeInputs t')
        \<and> BlockStakeOutputs t = BlockStakeOutputs t'
        \<and> MinerFees t = MinerFees t'
        \<and> ArbitraryData t = ArbitraryData t'
      \<longrightarrow> InputSigHash marshal hashSum unlockHash t inputIndex
            = InputSigHash marshal hashSum unlockHash t' inputIndex)
   \<and> InputSigHash marshal hashSum unlockHash (t \<lparr> Signatures := sigs \<rparr>) inputIndex
       = InputSigHash marshal hashSum unlockHash t inputIndex"
proof (intro conjI impI)
  show "InputSigHash marshal hashSum unlockHash (t \<lparr> Signatures := sigs \<rparr>) inputIndex
       = InputSigHash marshal hashSum unlockHash t inputIndex"
    by (simp add: InputSigHash_def)
next
  assume a: "map (\<lambda>ci. (CoinInput.ParentID ci, unlockHash (CoinInput.Unlocker ci))) (CoinInputs t)
          = map (\<lambda>ci. (CoinInput.ParentID ci, unlockHash (CoinInput.Unlocker ci))) (CoinInputs t')
        \<and> CoinOutputs t = CoinOutputs t'
        \<and> map (\<lambda>bsi. (BlockStakeInput.ParentID bsi, unlockHash (BlockStakeInput.Unlocker bsi)))
              (BlockStakeInputs t)
          = map (\<lambda>bsi. (BlockStakeInput.ParentID bsi, unlockHash (BlockStakeInput.Unlocker bsi)))
              (BlockStakeInputs t')
        \<and> BlockStakeOutputs t = BlockStakeOutputs t'
        \<and> MinerFees t = MinerFees t'
        \<and> ArbitraryData t = ArbitraryData t'"
  let ?e = "\<lambda>(i, uh). marshal (EncID i) @ marshal (EncUnlockHash uh)"
  have c: "map (\<lambda>ci. marshal (EncID (CoinInput.ParentID ci))
                          @ marshal (EncUnlockHash (unlockHash (CoinInput.Unlocker ci)))) (CoinInputs t)
      = map ?e (map (\<lambda>ci. (CoinInput.ParentID ci, unlockHash (CoinInput.Unlocker ci))) (CoinInputs t))"
    by simp
  have c': "map (\<lambda>ci. marshal (EncID (CoinInput.ParentID ci))
                          @ marshal (EncUnlockHash (unlockHash (CoinInput.Unlocker ci)))) (CoinInputs t')
      = map ?e (map (\<lambda>ci. (CoinInput.ParentID ci, unlockHash (CoinInput.Unlocker ci))) (CoinInputs t'))"
    by simp
  have b: "map (\<lambda>bsi. marshal (EncID (BlockStakeInput.ParentID bsi))
                          @ marshal (EncUnlockHash (unlockHash (BlockStakeInput.Unlocker bsi)))) (BlockStakeInputs t)
      = map ?e (map (\<lambda>bsi. (BlockStakeInput.ParentID bsi, unlockHash (BlockStakeInput.Unlocker bsi))) (BlockStakeInputs t))"
    by simp
  have b': "map (\<lambda>bsi. marshal (EncID (BlockStakeInput.ParentID bsi))
                          @ marshal (EncUnlockHash (unlockHash (BlockStakeInput.Unlocker bsi)))) (BlockStakeInputs t')
      = map ?e (map (\<lambda>bsi. (BlockStakeInput.ParentID bsi, unlockHash (BlockStakeInput.Unlocker bsi))) (BlockStakeInputs t'))"
    by simp
  show "InputSigHash marshal hashSum unlockHash t inputIndex
            = InputSigHash marshal hashSum unlockHash t' inputIndex"
    unfolding InputSigHash_preimage c c' b b' using a by simp
qed (rule InputSigHash_preimage)

theorem InputSigHash_ignores_signatures_witness:
  "\<forall>marshal hashSum.
     InputSigHash marshal hashSum unlockHash_of_key (tx_signed 100 [1, 2]) 0
       = InputSigHash marshal hashSum unlockHash_of_key (tx_signed 200 []) 0"
proof (intro allI)
  fix marshal hashSum
  show "InputSigHash marshal hashSum unlockHash_of_key (tx_signed 100 [1, 2]) 0
       = InputSigHash marshal hashSum unlockHash_of_key (tx_signed 200 []) 0"
    using InputSigHash_ignores_signatures [of marshal hashSum unlockHash_of_key "tx_signed 100 [1, 2]" 0
        "tx_signed 200 []", THEN conjunct2, THEN conjunct1]
    by (simp add: tx_signed_def unlockHash_of_key_def)
qed

section \<open>Properties of modules/consensus/processedblock.go\<close>

subsection \<open>Targets\<close>

lemma Target_Int_bounds: "0 \<le> Target_Int x" "Target_Int x < 2 ^ 256"
  using uint_lt2p [of x] by (simp_all add: Target_Int_def)

lemma Target_Int_pos: "x \<noteq> 0 \<Longrightarrow> 0 < Target_Int x"
  using uint_ge_0 [of x] uint_0_iff [of x] unfolding Target_Int_def by linarith

lemma Target_Int_inject: "Target_Int x = Target_Int y \<longleftrightarrow> x = y"
  by (simp add: Target_Int_def word_uint_eq_iff)

lemma Inverse_eq:
  "Inverse x = (if x = 0 then Inl DivisionByZero else Inr (1 / of_int (Target_Int x)))"
  by (simp add: Inverse_def big_Rat_Inv_def Target_Rat_def Target_Int_def inverse_eq_divide
      unsigned_eq_0_iff)

lemma IntToTarget_in_range:
  "0 \<le> i \<Longrightarrow> i < 2 ^ 256 \<Longrightarrow> \<exists>t. IntToTarget i = Inr t \<and> Target_Int t = i"
  by (simp add: IntToTarget_def Target_Int_def uint_word_of_int take_bit_eq_mod)

lemma IntToTarget_saturates:
  "2 ^ 256 \<le> i \<Longrightarrow> \<exists>t. IntToTarget i = Inr t \<and> Target_Int t = 2 ^ 256 - 1"
  by (simp add: IntToTarget_def Target_Int_def uint_word_of_int take_bit_eq_mod)

lemma int_div_less:
  fixes X Y :: int
  assumes "0 < X" "0 < Y"
  shows "X * Y div (X + Y) < X" "0 \<le> X * Y div (X + Y)"
proof -
  let ?q = "X * Y div (X + Y)"
  have pos: "0 < X + Y" using assms by simp
  have "X * Y = ?q * (X + Y) + X * Y mod (X + Y)"
    by (simp only: div_mult_mod_eq)
  moreover have "0 \<le> X * Y mod (X + Y)" using pos by simp
  ultimately have "?q * (X + Y) \<le> X * Y" by linarith
  moreover have "X * Y < X * (X + Y)" using assms by (simp add: distrib_left)
  ultimately have "?q * (X + Y) < X * (X + Y)" by linarith
  then show "?q < X" using pos by (simp add: mult_less_cancel_right)
  show "0 \<le> ?q" using assms pos by (simp add: pos_imp_zdiv_nonneg_iff)
qed

lemma AddDifficulties_eq:
  assumes "x \<noteq> 0" "y \<noteq> 0"
  shows "\<exists>t. AddDifficulties x y = Inr t
           \<and> Target_Int t = Target_Int x * Target_Int y div (Target_Int x + Target_Int y)"
proof -
  let ?X = "Target_Int x" and ?Y = "Target_Int y"
  have X: "0 < ?X" "?X < 2 ^ 256" and Y: "0 < ?Y"
    using assms Target_Int_pos Target_Int_bounds by simp_all
  have s: "1 / of_int ?X + 1 / of_int ?Y = (of_int (?X + ?Y) / of_int (?X * ?Y) :: rat)"
    using X Y by (simp add: field_simps)
  have nz: "(of_int (?X + ?Y) / of_int (?X * ?Y) :: rat) \<noteq> 0" using X Y by simp
  have inv: "inverse (of_int (?X + ?Y) / of_int (?X * ?Y) :: rat) = of_int (?X * ?Y) / of_int (?X + ?Y)"
    by (simp add: inverse_eq_divide)
  have fl: "\<lfloor>of_int (?X * ?Y) / of_int (?X + ?Y) :: rat\<rfloor> = ?X * ?Y div (?X + ?Y)"
    by (rule floor_divide_of_int_eq)
  have r: "0 \<le> ?X * ?Y div (?X + ?Y)" "?X * ?Y div (?X + ?Y) < 2 ^ 256"
    using int_div_less [OF X(1) Y] X(2) by simp_all
  have "AddDifficulties x y = IntToTarget (?X * ?Y div (?X + ?Y))"
    using assms nz unfolding AddDifficulties_def Inverse_eq big_Rat_Inv_def RatToTarget_def
    by (simp only: s inv fl if_False sum.case)
  then show ?thesis using IntToTarget_in_range [OF r] by simp
qed

lemma AddDifficulties_Inr_nonzero:
  "AddDifficulties x y = Inr t \<Longrightarrow> x \<noteq> 0 \<and> y \<noteq> 0"
  by (auto simp: AddDifficulties_def Inverse_eq split: if_splits)

lemma SurpassThreshold_fifth: "SurpassThreshold = 1 / 5"
  by (simp add: SurpassThreshold_def Fract_of_int_quotient)

lemma MulDifficulty_SurpassThreshold:
  assumes "x \<noteq> 0"
  shows "\<exists>t. MulDifficulty x SurpassThreshold = Inr t
           \<and> Target_Int t = min (5 * Target_Int x) (2 ^ 256 - 1) \<and> t \<noteq> 0"
proof -
  let ?X = "Target_Int x"
  have X: "0 < ?X" using assms Target_Int_pos by simp
  have p: "SurpassThreshold * (1 / of_int ?X) \<noteq> 0" using X by (simp add: SurpassThreshold_fifth)
  have inv: "inverse (SurpassThreshold * (1 / of_int ?X)) = of_int (5 * ?X)"
    using X by (simp add: SurpassThreshold_fifth)
  have m: "MulDifficulty x SurpassThreshold = IntToTarget (5 * ?X)"
    using assms p unfolding MulDifficulty_def Inverse_eq big_Rat_Inv_def RatToTarget_def
    by (simp only: inv floor_of_int if_False sum.case)
  show ?thesis
  proof (cases "5 * ?X < 2 ^ 256")
    case True
    then obtain t where t: "IntToTarget (5 * ?X) = Inr t" "Target_Int t = 5 * ?X"
      using IntToTarget_in_range [of "5 * ?X"] X by auto
    then have "t \<noteq> 0" using X by (auto simp: Target_Int_def)
    then show ?thesis using m t True by simp
  next
    case False
    then obtain t where t: "IntToTarget (5 * ?X) = Inr t" "Target_Int t = 2 ^ 256 - 1"
      using IntToTarget_saturates [of "5 * ?X"] by auto
    then have "t \<noteq> 0" by (auto simp: Target_Int_def)
    then show ?thesis using m t False by simp
  qed
qed

lemma MulDifficulty_Inr_nonzero: "MulDifficulty x y = Inr t \<Longrightarrow> x \<noteq> 0"
  by (auto simp: MulDifficulty_def Inverse_eq split: if_splits)

lemma Cmp_iff:
  "(0 < Cmp x y \<longleftrightarrow> Target_Int y < Target_Int x)"
  "(Cmp x y < 0 \<longleftrightarrow> Target_Int x < Target_Int y)"
  "(Cmp x y = 0 \<longleftrightarrow> x = y)"
  using Target_Int_inject [of x y] by (auto simp: Cmp_def)

subsection \<open>heavierThan\<close>

text \<open>
  Claim C1.  \<open>heavierThan candidate current\<close> returns \<open>b\<close> exactly when
  \<open>current.ChildTarget.MulDifficulty(SurpassThreshold)\<close> and then
  \<open>current.Depth.AddDifficulties\<close> of it return a requirement and \<open>b\<close> tells whether
  \<open>requirement.Cmp(candidate.Depth)\<close> is greater than zero, that is, whether the depth of
  the candidate is the smaller and so the heavier target; \<open>SurpassThreshold\<close> is the
  rational 20/100.  It returns for exactly the current nodes whose depth and child target
  are not zero.
\<close>

theorem heavierThan_requirement:
  "SurpassThreshold = Fract 20 100
   \<and> (heavierThan candidate current = Inr b \<longleftrightarrow>
        (\<exists>threshold requirement.
            MulDifficulty (ChildTarget current) SurpassThreshold = Inr threshold
          \<and> AddDifficulties (Depth current) threshold = Inr requirement
          \<and> b = (Cmp requirement (Depth candidate) > 0)))
   \<and> (Cmp x y > 0 \<longleftrightarrow> Target_Int y < Target_Int x)
   \<and> (Depth current \<noteq> 0 \<and> ChildTarget current \<noteq> 0 \<longrightarrow>
        (\<exists>b. heavierThan candidate current = Inr b))
   \<and> ((\<exists>b. heavierThan candidate current = Inr b) \<longrightarrow>
        Depth current \<noteq> 0 \<and> ChildTarget current \<noteq> 0)"
proof -
  have f1: "SurpassThreshold = Fract 20 100"
    by (simp add: SurpassThreshold_def)
  have f2: "heavierThan candidate current = Inr b \<longleftrightarrow>
        (\<exists>threshold requirement.
            MulDifficulty (ChildTarget current) SurpassThreshold = Inr threshold
          \<and> AddDifficulties (Depth current) threshold = Inr requirement
          \<and> b = (Cmp requirement (Depth candidate) > 0))"
    by (auto simp: heavierThan_def split: sum.splits)
  have f3: "Cmp x y > 0 \<longleftrightarrow> Target_Int y < Target_Int x"
    by (rule Cmp_iff)
  have f4: "Depth current \<noteq> 0 \<and> ChildTarget current \<noteq> 0 \<longrightarrow>
        (\<exists>b. heavierThan candidate current = Inr b)"
  proof
    assume a: "Depth current \<noteq> 0 \<and> ChildTarget current \<noteq> 0"
    then obtain threshold where t:
      "MulDifficulty (ChildTarget current) SurpassThreshold = Inr threshold" "threshold \<noteq> 0"
      using MulDifficulty_SurpassThreshold [of "ChildTarget current"] by blast
    then obtain requirement where "AddDifficulties (Depth current) threshold = Inr requirement"
      using a AddDifficulties_eq [of "Depth current" threshold] by blast
    then show "\<exists>b. heavierThan candidate current = Inr b"
      using t by (simp add: heavierThan_def)
  qed
  have f5: "(\<exists>b. heavierThan candidate current = Inr b) \<longrightarrow>
        Depth current \<noteq> 0 \<and> ChildTarget current \<noteq> 0"
  proof
    assume "\<exists>b. heavierThan candidate current = Inr b"
    then obtain threshold requirement where
      "MulDifficulty (ChildTarget current) SurpassThreshold = Inr threshold"
      "AddDifficulties (Depth current) threshold = Inr requirement"
      by (auto simp: heavierThan_def split: sum.splits)
    then show "Depth current \<noteq> 0 \<and> ChildTarget current \<noteq> 0"
      using MulDifficulty_Inr_nonzero AddDifficulties_Inr_nonzero by blast
  qed
  show ?thesis
    by (intro conjI) (rule f1, rule f2, rule f3, rule f4, rule f5)
qed

lemma heavierThan_value:
  assumes "Depth current \<noteq> 0" "ChildTarget current \<noteq> 0"
  shows "heavierThan candidate current =
     Inr (Target_Int (Depth candidate)
            < Target_Int (Depth current) * min (5 * Target_Int (ChildTarget current)) (2 ^ 256 - 1)
                div (Target_Int (Depth current) + min (5 * Target_Int (ChildTarget current)) (2 ^ 256 - 1)))"
proof -
  obtain threshold where t: "MulDifficulty (ChildTarget current) SurpassThreshold = Inr threshold"
    "Target_Int threshold = min (5 * Target_Int (ChildTarget current)) (2 ^ 256 - 1)" "threshold \<noteq> 0"
    using assms MulDifficulty_SurpassThreshold [of "ChildTarget current"] by blast
  obtain requirement where r: "AddDifficulties (Depth current) threshold = Inr requirement"
    "Target_Int requirement
       = Target_Int (Depth current) * Target_Int threshold div (Target_Int (Depth current) + Target_Int threshold)"
    using assms t AddDifficulties_eq [of "Depth current" threshold] by blast
  show ?thesis using t r by (simp add: heavierThan_def Cmp_iff)
qed

text \<open>
  With depth 1000 and child target 300 the requirement is 600: a candidate of depth 599 is
  heavier, one of depth 600 is not.
\<close>

theorem heavierThan_requirement_witness:
  "heavierThan (tip 599 100) (tip 1000 300) = Inr True
   \<and> heavierThan (tip 600 100) (tip 1000 300) = Inr False"
proof -
  have m: "MulDifficulty 300 SurpassThreshold = Inr 1500" by code_simp
  have a: "AddDifficulties 1000 1500 = Inr 600" by code_simp
  have c: "Cmp 600 599 > 0" "\<not> Cmp 600 600 > 0" by (simp_all add: Cmp_def Target_Int_def)
  show ?thesis
    using heavierThan_requirement [of "tip 599 100" "tip 1000 300" True, THEN conjunct2, THEN conjunct1]
      heavierThan_requirement [of "tip 600 100" "tip 1000 300" False, THEN conjunct2, THEN conjunct1]
      m a c
    by (simp add: tip_def zero_processedBlock_def)
qed

subsection \<open>targetAdjustmentBase\<close>






lemma sint_mult_no_wrap:
  fixes a b :: "64 word"
  assumes "uint a * uint b < 2 ^ 63"
  shows "sint (a * b) = uint a * uint b"
proof -
  have "uint a * uint b < 2 ^ LENGTH(64)" using assms by simp
  then have "uint (a * b) = uint a * uint b"
    by (simp only: uint_mult_lem)
  then show ?thesis using assms by (simp add: sint_cases)
qed

lemma sint_diff_wrap:
  fixes a b :: "64 word"
  assumes "b < a"
  shows "uint (b - a) = 2 ^ 64 + (uint b - uint a)"
    and "sint (b - a) = (if - (2 ^ 63) \<le> uint b - uint a then uint b - uint a
                         else 2 ^ 64 + (uint b - uint a))"
proof -
  have lt: "uint b < uint a" using assms by (simp add: word_less_def)
  show u: "uint (b - a) = 2 ^ 64 + (uint b - uint a)"
    using lt by (simp add: uint_sub_if')
  show "sint (b - a) = (if - (2 ^ 63) \<le> uint b - uint a then uint b - uint a
                         else 2 ^ 64 + (uint b - uint a))"
    unfolding sint_cases [of "b - a"] u using lt by auto
qed

lemma targetAdjustmentBase_walk:
  assumes "walkWindow bm (TargetWindow cc) 0 (Block.ParentID (Block pb)) (ID (Block pb))
             = Inr (windowSize, start)"
    and "bm start = Some startNode"
  shows "targetAdjustmentBase cc ID bm pb =
           big_NewRat (sint (Block.Timestamp (Block pb) - Block.Timestamp (Block startNode)))
             (sint (BlockFrequency cc * windowSize))"
  using assms
  by (simp add: targetAdjustmentBase_def UnmarshalBlockHeadersParentIDAndTS_def Let_def)





text \<open>
  Claim C9, as amended.  When the timestamp of the node is smaller than the timestamp of
  the window-start block, the \<open>uint64\<close> difference \<open>timePassed\<close> wraps: it is \<open>2^64\<close> plus
  the true (negative) elapsed time \<open>d\<close>.  The conversion \<open>int64(timePassed)\<close> gives back
  \<open>d\<close> itself when \<open>d\<close> is at least \<open>-2^63\<close>, and the positive value \<open>2^64 + d\<close> below
  that.  The function reports no error: it returns the ratio of this converted value and
  \<open>int64(expectedTimePassed)\<close>, provided the latter is not zero.  When
  \<open>int64(expectedTimePassed)\<close> is positive, the ratio is \<open>d\<close> over it and negative in the
  first case, and \<open>2^64 + d\<close> over it and positive in the second; when moreover
  \<open>BlockFrequency\<close> times \<open>windowSize\<close> does not wrap, the ratio of the first case is the
  true elapsed time over the true expected time.
\<close>

theorem targetAdjustmentBase_earlier_timestamp:
  "walkWindow bm (TargetWindow cc) 0 (Block.ParentID (Block pb)) (ID (Block pb))
       = Inr (windowSize, start)
     \<and> bm start = Some startNode
     \<and> Block.Timestamp (Block pb) < Block.Timestamp (Block startNode)
     \<and> sint (BlockFrequency cc * windowSize) \<noteq> 0
   \<longrightarrow> uint (Block.Timestamp (Block pb) - Block.Timestamp (Block startNode))
         = 2 ^ 64 + (uint (Block.Timestamp (Block pb)) - uint (Block.Timestamp (Block startNode)))
       \<and> sint (Block.Timestamp (Block pb) - Block.Timestamp (Block startNode))
         = (if - (2 ^ 63) \<le> uint (Block.Timestamp (Block pb)) - uint (Block.Timestamp (Block startNode))
            then uint (Block.Timestamp (Block pb)) - uint (Block.Timestamp (Block startNode))
            else 2 ^ 64 + (uint (Block.Timestamp (Block pb)) - uint (Block.Timestamp (Block startNode))))
       \<and> targetAdjustmentBase cc ID bm pb
         = Inr (of_int (sint (Block.Timestamp (Block pb) - Block.Timestamp (Block startNode)))
                / of_int (sint (BlockFrequency cc * windowSize)))
       \<and> (0 < sint (BlockFrequency cc * windowSize) \<longrightarrow>
            (- (2 ^ 63) \<le> uint (Block.Timestamp (Block pb)) - uint (Block.Timestamp (Block startNode))
              \<longrightarrow> targetAdjustmentBase cc ID bm pb
                    = Inr (of_int (uint (Block.Timestamp (Block pb))
                                   - uint (Block.Timestamp (Block startNode)))
                           / of_int (sint (BlockFrequency cc * windowSize)))
                  \<and> (of_int (uint (Block.Timestamp (Block pb))
                                   - uint (Block.Timestamp (Block startNode)))
                           / of_int (sint (BlockFrequency cc * windowSize)) :: rat) < 0)
          \<and> (uint (Block.Timestamp (Block pb)) - uint (Block.Timestamp (Block startNode)) < - (2 ^ 63)
              \<longrightarrow> targetAdjustmentBase cc ID bm pb
                    = Inr (of_int (2 ^ 64 + (uint (Block.Timestamp (Block pb))
                                   - uint (Block.Timestamp (Block startNode))))
                           / of_int (sint (BlockFrequency cc * windowSize)))
                  \<and> (0 :: rat) < of_int (2 ^ 64 + (uint (Block.Timestamp (Block pb))
                                   - uint (Block.Timestamp (Block startNode))))
                           / of_int (sint (BlockFrequency cc * windowSize))))
       \<and> (- (2 ^ 63) \<le> uint (Block.Timestamp (Block pb)) - uint (Block.Timestamp (Block startNode))
            \<and> 0 < uint (BlockFrequency cc) * uint windowSize
            \<and> uint (BlockFrequency cc) * uint windowSize < 2 ^ 63
          \<longrightarrow> targetAdjustmentBase cc ID bm pb
                = Inr (of_int (uint (Block.Timestamp (Block pb))
                               - uint (Block.Timestamp (Block startNode)))
                       / of_int (uint (BlockFrequency cc) * uint windowSize)))"
proof (intro impI)
  assume a: "walkWindow bm (TargetWindow cc) 0 (Block.ParentID (Block pb)) (ID (Block pb))
       = Inr (windowSize, start)
     \<and> bm start = Some startNode
     \<and> Block.Timestamp (Block pb) < Block.Timestamp (Block startNode)
     \<and> sint (BlockFrequency cc * windowSize) \<noteq> 0"
  let ?d = "uint (Block.Timestamp (Block pb)) - uint (Block.Timestamp (Block startNode))"
  let ?T = "Block.Timestamp (Block pb) - Block.Timestamp (Block startNode)"
  let ?E = "sint (BlockFrequency cc * windowSize)"
  from a have lt: "Block.Timestamp (Block pb) < Block.Timestamp (Block startNode)" by simp
  have neg: "?d < 0" using lt by (simp add: word_less_def)
  have lo: "- (2 ^ 64) < ?d"
  proof -
    have "uint (Block.Timestamp (Block startNode)) < 2 ^ 64"
      using uint_lt2p [of "Block.Timestamp (Block startNode)"] by simp
    moreover have "0 \<le> uint (Block.Timestamp (Block pb))"
      by simp
    ultimately show ?thesis by linarith
  qed
  have r: "targetAdjustmentBase cc ID bm pb = Inr (of_int (sint ?T) / of_int ?E)"
    using a targetAdjustmentBase_walk [of bm cc pb ID windowSize start startNode]
    by (simp add: big_NewRat_def Fract_of_int_quotient)
  have w: "uint ?T = 2 ^ 64 + ?d"
    and s: "sint ?T = (if - (2 ^ 63) \<le> ?d then ?d else 2 ^ 64 + ?d)"
    using sint_diff_wrap [OF lt] by blast+
  have g: "0 < ?E \<longrightarrow>
            (- (2 ^ 63) \<le> ?d \<longrightarrow> targetAdjustmentBase cc ID bm pb = Inr (of_int ?d / of_int ?E)
                  \<and> (of_int ?d / of_int ?E :: rat) < 0)
          \<and> (?d < - (2 ^ 63) \<longrightarrow>
                targetAdjustmentBase cc ID bm pb = Inr (of_int (2 ^ 64 + ?d) / of_int ?E)
                  \<and> (0 :: rat) < of_int (2 ^ 64 + ?d) / of_int ?E)"
  proof (intro impI conjI)
    assume "0 < ?E" "- (2 ^ 63) \<le> ?d"
    then show "targetAdjustmentBase cc ID bm pb = Inr (of_int ?d / of_int ?E)"
      using r s by simp
    have n: "(of_int ?d :: rat) < 0"
      using neg by (simp only: of_int_less_0_iff)
    have p: "(0 :: rat) < of_int ?E"
      using \<open>0 < ?E\<close> by (simp only: of_int_0_less_iff)
    show "(of_int ?d / of_int ?E :: rat) < 0"
      using n p by (rule divide_neg_pos)
  next
    assume "0 < ?E" "?d < - (2 ^ 63)"
    then show "targetAdjustmentBase cc ID bm pb = Inr (of_int (2 ^ 64 + ?d) / of_int ?E)"
      using r s by simp
    have "0 < 2 ^ 64 + ?d" using lo by linarith
    then have n: "(0 :: rat) < of_int (2 ^ 64 + ?d)"
      by (simp only: of_int_0_less_iff)
    have p: "(0 :: rat) < of_int ?E"
      using \<open>0 < ?E\<close> by (simp only: of_int_0_less_iff)
    show "(0 :: rat) < of_int (2 ^ 64 + ?d) / of_int ?E"
      using n p by (rule divide_pos_pos)
  qed
  have h: "- (2 ^ 63) \<le> ?d
            \<and> 0 < uint (BlockFrequency cc) * uint windowSize
            \<and> uint (BlockFrequency cc) * uint windowSize < 2 ^ 63
          \<longrightarrow> targetAdjustmentBase cc ID bm pb
                = Inr (of_int ?d / of_int (uint (BlockFrequency cc) * uint windowSize))"
  proof
    assume b: "- (2 ^ 63) \<le> ?d
            \<and> 0 < uint (BlockFrequency cc) * uint windowSize
            \<and> uint (BlockFrequency cc) * uint windowSize < 2 ^ 63"
    then have "?E = uint (BlockFrequency cc) * uint windowSize"
      by (simp add: sint_mult_no_wrap)
    then show "targetAdjustmentBase cc ID bm pb
                = Inr (of_int ?d / of_int (uint (BlockFrequency cc) * uint windowSize))"
      using r s b by simp
  qed
  show "uint ?T = 2 ^ 64 + ?d
       \<and> sint ?T = (if - (2 ^ 63) \<le> ?d then ?d else 2 ^ 64 + ?d)
       \<and> targetAdjustmentBase cc ID bm pb = Inr (of_int (sint ?T) / of_int ?E)
       \<and> (0 < ?E \<longrightarrow>
            (- (2 ^ 63) \<le> ?d \<longrightarrow> targetAdjustmentBase cc ID bm pb = Inr (of_int ?d / of_int ?E)
                  \<and> (of_int ?d / of_int ?E :: rat) < 0)
          \<and> (?d < - (2 ^ 63) \<longrightarrow>
                targetAdjustmentBase cc ID bm pb = Inr (of_int (2 ^ 64 + ?d) / of_int ?E)
                  \<and> (0 :: rat) < of_int (2 ^ 64 + ?d) / of_int ?E))
       \<and> (- (2 ^ 63) \<le> ?d
            \<and> 0 < uint (BlockFrequency cc) * uint windowSize
            \<and> uint (BlockFrequency cc) * uint windowSize < 2 ^ 63
          \<longrightarrow> targetAdjustmentBase cc ID bm pb
                = Inr (of_int ?d / of_int (uint (BlockFrequency cc) * uint windowSize)))"
    by (intro conjI) (rule w, rule s, rule r, rule g, rule h)
qed

text \<open>
  On the developer constants a node stamped 95 on a genesis block stamped 100 gives
  \<open>-5/12\<close>, and a node stamped 5 on a genesis block stamped \<open>2^63 + 10\<close> gives the
  positive \<open>(2^63 - 5)/12\<close>.  With a block frequency of \<open>2^63\<close> the expected time reads
  as a negative \<open>int64\<close>, and the first node gives the positive \<open>5/2^63\<close>.
\<close>

theorem targetAdjustmentBase_earlier_timestamp_witness:
  "targetAdjustmentBase (DefaultChainConstants ''dev'') chain_ID chain_genesis (node 1 95 1 2991 3000)
     = Inr (- 5 / 12)
   \<and> (- 5 / 12 :: rat) < 0
   \<and> targetAdjustmentBase (DefaultChainConstants ''dev'') chain_ID chain_late_genesis
       (node 1 5 1 2991 3000)
     = Inr (9223372036854775803 / 12)
   \<and> (0 :: rat) < 9223372036854775803 / 12
   \<and> targetAdjustmentBase ((DefaultChainConstants ''dev'') \<lparr> BlockFrequency := 9223372036854775808 \<rparr>)
       chain_ID chain_genesis (node 1 95 1 2991 3000)
     = Inr (5 / 9223372036854775808)"
  using targetAdjustmentBase_earlier_timestamp [of chain_genesis "DefaultChainConstants ''dev''"
      "node 1 95 1 2991 3000" chain_ID 1 1 "node 0 100 0 1000000 3000"]
    targetAdjustmentBase_earlier_timestamp [of chain_late_genesis "DefaultChainConstants ''dev''"
      "node 1 5 1 2991 3000" chain_ID 1 1 "node 0 9223372036854775818 0 1000000 3000"]
    targetAdjustmentBase_earlier_timestamp [of chain_genesis
      "(DefaultChainConstants ''dev'') \<lparr> BlockFrequency := 9223372036854775808 \<rparr>"
      "node 1 95 1 2991 3000" chain_ID 1 1 "node 0 100 0 1000000 3000"]
  by (simp add: DefaultChainConstants_def chain_genesis_def chain_late_genesis_def node_def
      chain_ID_def zero_processedBlock_def walkWindow.simps UnmarshalBlockHeadersParentIDAndTS_def)

text \<open>
  A node stamped 95 on a genesis block stamped 100: the ratio is built from the true
  elapsed time \<open>95 - 100\<close>, not from the wrapped difference \<open>2^64 + (95 - 100)\<close>.
\<close>

theorem targetAdjustmentBase_earlier_timestamp_counterexample:
  "Block.Timestamp (Block (node 1 95 1 2991 3000)) < Block.Timestamp (Block (node 0 100 0 1000000 3000))
   \<and> targetAdjustmentBase (DefaultChainConstants ''dev'') chain_ID chain_genesis (node 1 95 1 2991 3000)
     = Inr ((95 - 100) / (12 * 1))
   \<and> targetAdjustmentBase (DefaultChainConstants ''dev'') chain_ID chain_genesis (node 1 95 1 2991 3000)
     \<noteq> Inr ((2 ^ 64 + (95 - 100)) / (12 * 1))"
  by (simp add: targetAdjustmentBase_def walkWindow.simps DefaultChainConstants_def chain_genesis_def
        node_def chain_ID_def UnmarshalBlockHeadersParentIDAndTS_def zero_processedBlock_def
        big_NewRat_def Fract_of_int_quotient Let_def word_less_def)

subsection \<open>clampTargetAdjustment\<close>

text \<open>
  Claim C8.  With the clamps of the chain constants in order, \<open>clampTargetAdjustment\<close>
  returns \<open>MaxAdjustmentUp\<close> for a ratio above it, \<open>MaxAdjustmentDown\<close> for a ratio below
  it and the ratio itself otherwise, so the result lies in the closed interval between the
  two.
\<close>

theorem clampTargetAdjustment_clamps:
  assumes "MaxAdjustmentDown cc \<le> MaxAdjustmentUp cc"
  shows "(MaxAdjustmentUp cc < base \<longrightarrow> clampTargetAdjustment cc base = MaxAdjustmentUp cc)
    \<and> (base < MaxAdjustmentDown cc \<longrightarrow> clampTargetAdjustment cc base = MaxAdjustmentDown cc)
    \<and> (MaxAdjustmentDown cc \<le> base \<and> base \<le> MaxAdjustmentUp cc \<longrightarrow>
          clampTargetAdjustment cc base = base)
    \<and> MaxAdjustmentDown cc \<le> clampTargetAdjustment cc base
    \<and> clampTargetAdjustment cc base \<le> MaxAdjustmentUp cc"
  using assms by (auto simp: clampTargetAdjustment_def)

theorem clampTargetAdjustment_clamps_witness:
  "clampTargetAdjustment (DefaultChainConstants ''standard'') 3 = 5 / 2
   \<and> clampTargetAdjustment (DefaultChainConstants ''standard'') (1 / 3) = 2 / 5
   \<and> clampTargetAdjustment (DefaultChainConstants ''standard'') (3 / 2) = 3 / 2
   \<and> clampTargetAdjustment (DefaultChainConstants ''dev'') (- 5 / 12) = 5 / 6
   \<and> clampTargetAdjustment (DefaultChainConstants ''testing'') 1 = 1"
  using clampTargetAdjustment_clamps [of "DefaultChainConstants ''standard''" 3]
    clampTargetAdjustment_clamps [of "DefaultChainConstants ''standard''" "1 / 3"]
    clampTargetAdjustment_clamps [of "DefaultChainConstants ''standard''" "3 / 2"]
    clampTargetAdjustment_clamps [of "DefaultChainConstants ''dev''" "- 5 / 12"]
    clampTargetAdjustment_clamps [of "DefaultChainConstants ''testing''" 1]
  by (simp add: DefaultChainConstants_def Fract_of_int_quotient)

text \<open>The clamps of all three groups of default constants are in order.\<close>

lemma DefaultChainConstants_adjustments:
  "MaxAdjustmentDown (DefaultChainConstants release) \<le> MaxAdjustmentUp (DefaultChainConstants release)"
  by (simp add: DefaultChainConstants_def Fract_of_int_quotient)


subsection \<open>setChildTarget\<close>

lemma RatToTarget_nonneg:
  assumes "0 \<le> r"
  shows "\<exists>t. RatToTarget r = Inr t \<and> Target_Int t = min \<lfloor>r\<rfloor> (2 ^ 256 - 1)"
proof (cases "\<lfloor>r\<rfloor> < 2 ^ 256")
  case True
  have "0 \<le> \<lfloor>r\<rfloor>" using assms by simp
  then show ?thesis
    using True IntToTarget_in_range [of "\<lfloor>r\<rfloor>"] by (auto simp: RatToTarget_def)
next
  case False
  then show ?thesis
    using IntToTarget_saturates [of "\<lfloor>r\<rfloor>"] by (auto simp: RatToTarget_def)
qed


text \<open>
  Claim C4.  Let the parent of the node be in the store and \<open>TargetWindow / 2\<close> be
  positive.  For a node whose height is not a multiple of \<open>TargetWindow / 2\<close>,
  \<open>setChildTarget\<close> sets \<open>ChildTarget\<close> to the parent's \<open>ChildTarget\<close>, unchanged.
  For a node whose height is a multiple, it sets \<open>ChildTarget\<close> to the target that
  \<open>RatToTarget\<close> makes of the parent's \<open>ChildTarget\<close>, as a rational, times the clamped
  adjustment: for an adjustment that is not negative, the integer part of the product,
  and the largest target when that has more than 256 bits.  When \<open>targetAdjustmentBase\<close>
  panics, so does \<open>setChildTarget\<close>.
\<close>

theorem setChildTarget_target:
  "TargetWindow cc div 2 \<noteq> 0 \<and> bm (Block.ParentID (Block pb)) = Some parent \<longrightarrow>
     (Height pb mod (TargetWindow cc div 2) \<noteq> 0 \<longrightarrow>
        setChildTarget cc debug ID bm pb = Inr (pb \<lparr> ChildTarget := ChildTarget parent \<rparr>))
   \<and> (\<forall>base target.
          Height pb mod (TargetWindow cc div 2) = 0
        \<and> targetAdjustmentBase cc ID bm pb = Inr base
        \<and> RatToTarget (Target_Rat (ChildTarget parent) * clampTargetAdjustment cc base) = Inr target
        \<longrightarrow> setChildTarget cc debug ID bm pb = Inr (pb \<lparr> ChildTarget := target \<rparr>))
   \<and> (\<forall>base.
          Height pb mod (TargetWindow cc div 2) = 0
        \<and> targetAdjustmentBase cc ID bm pb = Inr base
        \<and> 0 \<le> clampTargetAdjustment cc base
        \<longrightarrow> (\<exists>target.
              setChildTarget cc debug ID bm pb = Inr (pb \<lparr> ChildTarget := target \<rparr>)
            \<and> Target_Int target
                = min \<lfloor>of_int (Target_Int (ChildTarget parent)) * clampTargetAdjustment cc base\<rfloor>
                    (2 ^ 256 - 1)))
   \<and> (\<forall>p. Height pb mod (TargetWindow cc div 2) = 0 \<and> targetAdjustmentBase cc ID bm pb = Inl p
        \<longrightarrow> setChildTarget cc debug ID bm pb = Inl p)"
proof (intro impI)
  assume a: "TargetWindow cc div 2 \<noteq> 0 \<and> bm (Block.ParentID (Block pb)) = Some parent"
  have f1: "Height pb mod (TargetWindow cc div 2) \<noteq> 0 \<longrightarrow>
        setChildTarget cc debug ID bm pb = Inr (pb \<lparr> ChildTarget := ChildTarget parent \<rparr>)"
    using a by (simp add: setChildTarget_def)
  have f2: "\<forall>base target.
          Height pb mod (TargetWindow cc div 2) = 0
        \<and> targetAdjustmentBase cc ID bm pb = Inr base
        \<and> RatToTarget (Target_Rat (ChildTarget parent) * clampTargetAdjustment cc base) = Inr target
        \<longrightarrow> setChildTarget cc debug ID bm pb = Inr (pb \<lparr> ChildTarget := target \<rparr>)"
    using a by (simp add: setChildTarget_def Let_def)
  have f3: "\<forall>base.
          Height pb mod (TargetWindow cc div 2) = 0
        \<and> targetAdjustmentBase cc ID bm pb = Inr base
        \<and> 0 \<le> clampTargetAdjustment cc base
        \<longrightarrow> (\<exists>target.
              setChildTarget cc debug ID bm pb = Inr (pb \<lparr> ChildTarget := target \<rparr>)
            \<and> Target_Int target
                = min \<lfloor>of_int (Target_Int (ChildTarget parent)) * clampTargetAdjustment cc base\<rfloor>
                    (2 ^ 256 - 1))"
  proof (intro allI impI)
    fix base
    assume b: "Height pb mod (TargetWindow cc div 2) = 0
        \<and> targetAdjustmentBase cc ID bm pb = Inr base
        \<and> 0 \<le> clampTargetAdjustment cc base"
    have "0 \<le> Target_Rat (ChildTarget parent) * clampTargetAdjustment cc base"
      using b Target_Int_bounds(1) [of "ChildTarget parent"] by (simp add: Target_Rat_def)
    from RatToTarget_nonneg [OF this]
    obtain target where t:
      "RatToTarget (Target_Rat (ChildTarget parent) * clampTargetAdjustment cc base) = Inr target"
      "Target_Int target = min \<lfloor>Target_Rat (ChildTarget parent) * clampTargetAdjustment cc base\<rfloor> (2 ^ 256 - 1)"
      by blast
    have "setChildTarget cc debug ID bm pb = Inr (pb \<lparr> ChildTarget := target \<rparr>)"
      using f2 [rule_format, of base target] b t(1) by simp
    then show "\<exists>target.
              setChildTarget cc debug ID bm pb = Inr (pb \<lparr> ChildTarget := target \<rparr>)
            \<and> Target_Int target
                = min \<lfloor>of_int (Target_Int (ChildTarget parent)) * clampTargetAdjustment cc base\<rfloor>
                    (2 ^ 256 - 1)"
      using t(2) by (auto simp: Target_Rat_def)
  qed
  have f4: "\<forall>p. Height pb mod (TargetWindow cc div 2) = 0 \<and> targetAdjustmentBase cc ID bm pb = Inl p
        \<longrightarrow> setChildTarget cc debug ID bm pb = Inl p"
    using a by (simp add: setChildTarget_def)
  show "(Height pb mod (TargetWindow cc div 2) \<noteq> 0 \<longrightarrow>
        setChildTarget cc debug ID bm pb = Inr (pb \<lparr> ChildTarget := ChildTarget parent \<rparr>))
   \<and> (\<forall>base target.
          Height pb mod (TargetWindow cc div 2) = 0
        \<and> targetAdjustmentBase cc ID bm pb = Inr base
        \<and> RatToTarget (Target_Rat (ChildTarget parent) * clampTargetAdjustment cc base) = Inr target
        \<longrightarrow> setChildTarget cc debug ID bm pb = Inr (pb \<lparr> ChildTarget := target \<rparr>))
   \<and> (\<forall>base.
          Height pb mod (TargetWindow cc div 2) = 0
        \<and> targetAdjustmentBase cc ID bm pb = Inr base
        \<and> 0 \<le> clampTargetAdjustment cc base
        \<longrightarrow> (\<exists>target.
              setChildTarget cc debug ID bm pb = Inr (pb \<lparr> ChildTarget := target \<rparr>)
            \<and> Target_Int target
                = min \<lfloor>of_int (Target_Int (ChildTarget parent)) * clampTargetAdjustment cc base\<rfloor>
                    (2 ^ 256 - 1)))
   \<and> (\<forall>p. Height pb mod (TargetWindow cc div 2) = 0 \<and> targetAdjustmentBase cc ID bm pb = Inl p
        \<longrightarrow> setChildTarget cc debug ID bm pb = Inl p)"
    by (intro conjI) (rule f1, rule f2, rule f3, rule f4)
qed

text \<open>
  On the chain of two blocks with a window of four: at height 3 the child target 3000 of
  the parent is inherited; at height 2 the adjustment is 25/24 and the target becomes
  3125.
\<close>

theorem setChildTarget_target_witness:
  "setChildTarget small_window False chain_ID chain_two (node 2 125 3 2000 0)
     = Inr (node 2 125 3 2000 3000)
   \<and> setChildTarget small_window False chain_ID chain_two (node 2 125 2 2000 0)
     = Inr (node 2 125 2 2000 3125)"
proof -
  have w: "TargetWindow small_window div 2 = 2"
    by (simp add: small_window_def DefaultChainConstants_def)
  have p: "chain_two 2 = Some (node 1 110 1 2991 3000)"
    by (simp add: chain_two_def)
  have b: "targetAdjustmentBase small_window chain_ID chain_two (node 2 125 2 2000 0) = Inr (25 / 24)"
    by code_simp
  have c: "clampTargetAdjustment small_window (25 / 24) = 25 / 24"
    by (simp add: clampTargetAdjustment_def small_window_def DefaultChainConstants_def
        Fract_of_int_quotient)
  have r: "RatToTarget (Target_Rat 3000 * (25 / 24)) = Inr 3125"
    by code_simp
  have 1: "setChildTarget small_window False chain_ID chain_two (node 2 125 3 2000 0)
     = Inr (node 2 125 3 2000 3000)"
    using setChildTarget_target [of small_window chain_two "node 2 125 3 2000 0"
        "node 1 110 1 2991 3000" False chain_ID, THEN mp, THEN conjunct1] w p
    by (simp add: node_def zero_processedBlock_def)
  have 2: "setChildTarget small_window False chain_ID chain_two (node 2 125 2 2000 0)
     = Inr (node 2 125 2 2000 3125)"
    using setChildTarget_target [of small_window chain_two "node 2 125 2 2000 0"
        "node 1 110 1 2991 3000" False chain_ID, THEN mp, THEN conjunct2, THEN conjunct1,
        rule_format, of "25 / 24" 3125] w p b c r
    by (simp add: node_def zero_processedBlock_def)
  show ?thesis using 1 2 by simp
qed

subsection \<open>newChild\<close>






end
